theory Spec2Isabelle
  imports Complex_Main "HOL-Library.Product_Lexorder" "HOL-Library.Multiset" "HOL-Library.Sublist"
begin

section \<open>The composer of \<open>pycomposer/aae_composer.py\<close>\<close>

text \<open>
  The class \<open>AAEComposer\<close> is glue around external libraries (pygan, pydbm, numpy,
  pandas, the MIDI controller). The embedding keeps the glue and makes the libraries
  explicit:
  \<^item> Python integers are \<open>int\<close>; times (\<open>time_fraction\<close>, \<open>start\<close>, \<open>end\<close>) and the
    other floating-point values are \<open>real\<close>, so arithmetic on them is exact;
  \<^item> an exception raised by the composer's own statements is a value of \<open>error\<close>,
    returned as \<open>Inl\<close>;
  \<^item> an object of an external class that the composer only builds and passes on is the
    term of its constructor call; an object handed in by the caller is an opaque
    \<open>\<dots>Obj n\<close>;
  \<^item> the generative model is the one object the composer assigns an attribute of, so it
    lives in a heap (\<open>gen_heap\<close>, the object each reference denotes) and the composer
    holds its reference;
  \<^item> a call into a library is a field of the record \<open>externals\<close>. Its result may
    depend on everything that happened before, so it reads the \<open>world\<close>; the calls
    with an effect are logged in \<open>calls\<close>, most recent first. External calls are
    taken to return.
\<close>

subsection \<open>Values\<close>

datatype error =
    TypeError string
  | ValueError string
  | IndexError string
  | NameError string

type_synonym ref = nat

text \<open>
  A row of a note DataFrame, columns \<open>program\<close>, \<open>start\<close>, \<open>end\<close>, \<open>pitch\<close>,
  \<open>velocity\<close>; \<open>compose\<close> adds the columns \<open>next_start\<close> and \<open>next_end\<close>, whose
  \<open>NaN\<close> is \<open>None\<close>.
\<close>

record note_row =
  col_program :: int
  col_start :: real
  col_end :: real
  col_pitch :: int
  col_velocity :: int

record linked_row = note_row +
  col_next_start :: "real option"
  col_next_end :: "real option"

type_synonym midi_df = "note_row list"

text \<open>
  The tuples \<open>(program, start, end, pitch, velocity)\<close> that \<open>compose\<close> appends to
  \<open>generated_list\<close>.
\<close>

type_synonym note_tuple = "int \<times> real \<times> real \<times> int \<times> int"

text \<open>
  A four-dimensional numpy array: its \<open>shape\<close> and its entries.
\<close>

record ndarray =
  shape0 :: nat
  shape1 :: nat
  shape2 :: nat
  shape3 :: nat
  item :: "nat \<Rightarrow> nat \<Rightarrow> nat \<Rightarrow> nat \<Rightarrow> real"

text \<open>
  A row of the DataFrame \<open>key_df\<close> that \<open>compose\<close> builds for one
  \<open>(batch, program_key)\<close>: the columns \<open>seq\<close>, \<open>pitch\<close> and \<open>p\<close>.
\<close>

record key_row =
  key_seq :: nat
  key_pitch :: nat
  key_p :: real

subsection \<open>Objects of the external classes\<close>

text \<open>
  Constructor arguments stand in the order of the keywords in the source:
  \<open>BarTrueSampler(midi_df_list, batch_size, seq_len, time_fraction, min_pitch, max_pitch,
  conditional_flag)\<close>, \<open>BarNoiseSampler(midi_df_list, batch_size, seq_len, time_fraction,
  min_pitch, max_pitch)\<close>.
\<close>

datatype true_sampler =
    BarTrueSampler "midi_df list" int int real int int bool
  | TrueSamplerObj nat

datatype noise_sampler =
    BarNoiseSampler "midi_df list" int int real int int
  | NoiseSamplerObj nat

datatype batch_norm = BatchNorm

datatype activation =
    TanhFunction "batch_norm option"
  | LogisticFunction

text \<open>
  \<open>CNNGraph(activation_function, filter_num, channel, kernel_size, scale, stride, pad)\<close>;
  the names \<open>CNNGraphG1\<close>, \<open>CNNGraphG2\<close>, \<open>CNNGraphD1\<close>, \<open>DeCNNGraphD1\<close> are import
  aliases of the one class, as are the convolution and deconvolution layer names.
\<close>

datatype cnn_graph = CNNGraph activation int int int real int int

datatype layerable_cnn =
    ConvolutionLayer cnn_graph
  | DeconvolutionLayer cnn_graph

text \<open>\<open>Adam()\<close> with the \<open>dropout_rate\<close> assigned to it.\<close>

datatype opt_params = Adam real

datatype computable_loss = MeanSquaredError | CrossEntropy

datatype verificatable_result = VerificateFunctionApproximation

text \<open>
  \<open>CAE(layerable_cnn_list, epochs, batch_size, learning_rate, learning_attenuate_rate,
  attenuate_epoch, computable_loss, opt_params, verificatable_result, test_size_rate,
  tol)\<close>.
\<close>

datatype cae =
  CAE "layerable_cnn list" int int real real int computable_loss opt_params
    verificatable_result real real

text \<open>
  \<open>Generator(batch_size, learning_rate, convolutional_auto_encoder, channel,
  verbose_mode)\<close>, or the body of an object the caller built.
\<close>

datatype generator =
    Generator int real cae int bool
  | GeneratorObj nat

text \<open>
  A generative model on the heap: what it was built from, and its attribute
  \<open>noise_sampler\<close>.
\<close>

record generative_obj =
  gen_body :: generator
  gen_noise_sampler :: "noise_sampler option"

text \<open>\<open>CNNOutputGraph(hidden_dim, output_dim, activating_function, scale)\<close>.\<close>

datatype cnn_output_graph = CNNOutputGraph int int activation real

text \<open>
  \<open>Discriminator(batch_size, layerable_cnn_list, cnn_output_graph, opt_params,
  computable_loss, learning_rate, verbose_mode)\<close>.
\<close>

datatype discriminative_model =
    Discriminator int "layerable_cnn list" cnn_output_graph opt_params computable_loss
      real bool
  | DiscriminatorObj nat

datatype gans_value_function = MiniMax | ValueFunctionObj nat

datatype gan = AdversarialAutoEncoders gans_value_function

datatype midi_controller = MidiController

subsection \<open>The world outside the composer\<close>

datatype call =
    Draw ref
  | Normal real real
  | Save string "linked_row list"
  | Train gan true_sampler ref discriminative_model int int

record world =
  calls :: "call list"
  gen_heap :: "ref \<Rightarrow> generative_obj"
  next_ref :: ref

text \<open>
  The library calls the composer makes:
  \<^item> \<open>extract_midi\<close>: \<open>MidiController.extract(midi_path)\<close>;
  \<^item> \<open>channel_of\<close>, \<open>program_list_of\<close>: the attributes \<open>channel\<close> and \<open>program_list\<close>
    of a noise sampler;
  \<^item> \<open>train\<close>: \<open>GAN.train(true_sampler, generative_model, discriminative_model, iter_n,
    k_step)\<close>, returning the pair of models;
  \<^item> \<open>extract_logs_tuple\<close>: \<open>GAN.extract_logs_tuple()\<close>, three lists of numbers;
  \<^item> \<open>draw\<close>: \<open>generative_model.draw()\<close>;
  \<^item> \<open>velocity_mean_of\<close>, \<open>velocity_std_of\<close>: the numpy mean of the DataFrames'
    velocity means, and the numpy standard deviation of their velocity standard
    deviations;
  \<^item> \<open>normal\<close>: \<open>np.random.normal(loc, scale)\<close>;
  \<^item> \<open>tie_break\<close>: the rank \<open>sort_values(by=["p"])\<close> gives a row among the rows
    of equal \<open>p\<close> of the frame it sorts.
\<close>

record externals =
  extract_midi :: "string \<Rightarrow> midi_df"
  channel_of :: "noise_sampler \<Rightarrow> int"
  program_list_of :: "noise_sampler \<Rightarrow> int list"
  train :: "world \<Rightarrow> gan \<Rightarrow> true_sampler \<Rightarrow> ref \<Rightarrow> discriminative_model \<Rightarrow> int \<Rightarrow> int
    \<Rightarrow> ref \<times> discriminative_model"
  extract_logs_tuple :: "world \<Rightarrow> gan \<Rightarrow> real list \<times> real list \<times> real list"
  draw :: "world \<Rightarrow> ref \<Rightarrow> ndarray"
  velocity_mean_of :: "midi_df list \<Rightarrow> real"
  velocity_std_of :: "midi_df list \<Rightarrow> real"
  normal :: "world \<Rightarrow> real \<Rightarrow> real \<Rightarrow> real"
  tie_break :: "key_row list \<Rightarrow> key_row \<Rightarrow> nat"

subsection \<open>The composer object\<close>

text \<open>
  The private attributes \<open>self.__midi_controller\<close>, \<open>self.__midi_df_list\<close>, \<dots> of
  \<open>AAEComposer\<close>.
\<close>

record composer =
  self_midi_controller :: midi_controller
  self_midi_df_list :: "midi_df list"
  self_noise_sampler :: noise_sampler
  self_true_sampler :: true_sampler
  self_generative_model :: ref
  self_discriminative_model :: discriminative_model
  self_GAN :: gan
  self_time_fraction :: real
  self_min_pitch :: int
  self_max_pitch :: int

subsection \<open>\<open>learn\<close>, \<open>extract_logs\<close> and the read-only properties\<close>

text \<open>
  A method takes the composer and the world and returns its result with the composer
  and the world after it.
\<close>

definition learn ::
  "externals \<Rightarrow> int \<Rightarrow> int \<Rightarrow> composer \<Rightarrow> world \<Rightarrow> composer \<times> world" where
  "learn ext iter_n k_step self w =
     (let (generative_model, discriminative_model) =
            train ext w (self_GAN self) (self_true_sampler self)
              (self_generative_model self) (self_discriminative_model self) iter_n k_step;
          w' = w\<lparr>calls := Train (self_GAN self) (self_true_sampler self)
                  (self_generative_model self) (self_discriminative_model self)
                  iter_n k_step # calls w\<rparr>
      in (self\<lparr>self_generative_model := generative_model,
               self_discriminative_model := discriminative_model\<rparr>, w'))"

definition extract_logs ::
  "externals \<Rightarrow> composer \<Rightarrow> world
     \<Rightarrow> (real list \<times> real list \<times> real list) \<times> composer \<times> world" where
  "extract_logs ext self w = (extract_logs_tuple ext w (self_GAN self), self, w)"

definition get_generative_model :: "composer \<Rightarrow> world \<Rightarrow> ref \<times> composer \<times> world" where
  "get_generative_model self w = (self_generative_model self, self, w)"

definition get_true_sampler :: "composer \<Rightarrow> world \<Rightarrow> true_sampler \<times> composer \<times> world" where
  "get_true_sampler self w = (self_true_sampler self, self, w)"

text \<open>
  The setter of both properties; \<open>value\<close> is whatever is assigned, of any type.
\<close>

definition set_readonly :: "composer \<Rightarrow> 'v \<Rightarrow> world \<Rightarrow> (error + unit) \<times> composer \<times> world" where
  "set_readonly self v w = (Inl (TypeError ''This property must be read-only.''), self, w)"

subsection \<open>\<open>compose\<close>: from the drawn array to \<open>generated_list\<close>\<close>

text \<open>
  \<open>np.where(generated_arr[batch, program_key] == 1)\<close>: the index pairs \<open>(seq, pitch)\<close>
  of the entries equal to 1, in row-major order.
\<close>

definition np_where_eq_1 :: "ndarray \<Rightarrow> nat \<Rightarrow> nat \<Rightarrow> (nat \<times> nat) list" where
  "np_where_eq_1 arr batch program_key =
     [(s, q). s \<leftarrow> [0..<shape2 arr], q \<leftarrow> [0..<shape3 arr],
        item arr batch program_key s q = 1]"

text \<open>
  \<open>key_df\<close>: the rows of the entries equal to 1, sorted by \<open>p\<close>, largest first.
  pandas sorts one column with a sort that is not stable, so rows of equal \<open>p\<close> (here
  all of them: every \<open>p\<close> is 1) come out in an order the library chooses; \<open>tie_break\<close>
  ranks them.
\<close>

definition key_df :: "externals \<Rightarrow> ndarray \<Rightarrow> nat \<Rightarrow> nat \<Rightarrow> key_row list" where
  "key_df ext arr batch program_key =
     (let rows = map (\<lambda>(s, q). \<lparr>key_seq = s, key_pitch = q,
                                 key_p = item arr batch program_key s q\<rparr>)
                   (np_where_eq_1 arr batch program_key)
      in sort_key (\<lambda>r. (- key_p r, tie_break ext rows r)) rows)"

text \<open>Python's \<open>int\<close> of a float: truncation towards zero.\<close>

definition py_int :: "real \<Rightarrow> int" where
  "py_int x = (if 0 \<le> x then \<lfloor>x\<rfloor> else \<lceil>x\<rceil>)"

text \<open>
  The loop \<open>for i in range(df.shape[0])\<close> over the rows \<open>df\<close> of \<open>key_df\<close> with one
  \<open>seq\<close>: each row draws one velocity and appends one tuple.
\<close>

fun append_notes ::
  "externals \<Rightarrow> composer \<Rightarrow> real \<Rightarrow> real \<Rightarrow> int \<Rightarrow> real \<Rightarrow> real \<Rightarrow> key_row list
     \<Rightarrow> note_tuple list \<times> world \<Rightarrow> note_tuple list \<times> world" where
  "append_notes ext self loc scale program start end' [] acc = acc"
| "append_notes ext self loc scale program start end' (r # df) (generated_list, w) =
     (let pitch = py_int (real (key_pitch r) + real_of_int (self_min_pitch self));
          velocity = py_int (normal ext w loc scale);
          w' = w\<lparr>calls := Normal loc scale # calls w\<rparr>
      in append_notes ext self loc scale program start end' df
           (generated_list @ [(program, start, end', pitch, velocity)], w'))"

text \<open>
  The loop \<open>for seq in range(generated_arr.shape[2])\<close>, with
  \<open>df = key_df[key_df.seq == seq]\<close>.
\<close>

definition seq_loop ::
  "externals \<Rightarrow> composer \<Rightarrow> real \<Rightarrow> real \<Rightarrow> int \<Rightarrow> real \<Rightarrow> real \<Rightarrow> key_row list
     \<Rightarrow> nat \<Rightarrow> note_tuple list \<times> world \<Rightarrow> note_tuple list \<times> world" where
  "seq_loop ext self loc scale program start end' kdf n acc =
     fold (\<lambda>seq. append_notes ext self loc scale program start end'
                   (filter (\<lambda>r. key_seq r = seq) kdf))
       [0..<n] acc"

text \<open>
  The body of \<open>for program_key in range(generated_arr.shape[1])\<close>. The locals it
  carries are \<open>(start, end, generated_list)\<close>. \<open>program_list[program_key]\<close> raises
  \<open>IndexError\<close> past the end of the list.
\<close>

type_synonym locals = "real \<times> real \<times> note_tuple list"

definition program_key_body ::
  "externals \<Rightarrow> composer \<Rightarrow> ndarray \<Rightarrow> real \<Rightarrow> real \<Rightarrow> nat \<Rightarrow> nat \<Rightarrow> locals \<times> world
     \<Rightarrow> (error + locals) \<times> world" where
  "program_key_body ext self generated_arr loc scale batch program_key st =
     (case st of ((start, end', generated_list), w) \<Rightarrow>
        (let kdf = key_df ext generated_arr batch program_key;
             program_list = program_list_of ext (self_noise_sampler self)
         in if program_key < length program_list then
              (let program = program_list ! program_key;
                   (generated_list', w') =
                      seq_loop ext self loc scale program start end' kdf
                        (shape2 generated_arr) (generated_list, w)
               in (Inr (start + self_time_fraction self, end' + self_time_fraction self,
                        generated_list'), w'))
            else (Inl (IndexError ''list index out of range''), w)))"

fun program_key_loop ::
  "externals \<Rightarrow> composer \<Rightarrow> ndarray \<Rightarrow> real \<Rightarrow> real \<Rightarrow> nat \<Rightarrow> nat list \<Rightarrow> locals \<times> world
     \<Rightarrow> (error + locals) \<times> world" where
  "program_key_loop ext self generated_arr loc scale batch [] st = (Inr (fst st), snd st)"
| "program_key_loop ext self generated_arr loc scale batch (program_key # keys) st =
     (case program_key_body ext self generated_arr loc scale batch program_key st of
        (Inl e, w) \<Rightarrow> (Inl e, w)
      | (Inr l, w) \<Rightarrow> program_key_loop ext self generated_arr loc scale batch keys (l, w))"

fun batch_loop ::
  "externals \<Rightarrow> composer \<Rightarrow> ndarray \<Rightarrow> real \<Rightarrow> real \<Rightarrow> nat list \<Rightarrow> locals \<times> world
     \<Rightarrow> (error + locals) \<times> world" where
  "batch_loop ext self generated_arr loc scale [] st = (Inr (fst st), snd st)"
| "batch_loop ext self generated_arr loc scale (batch # batches) st =
     (case program_key_loop ext self generated_arr loc scale batch
             [0..<shape1 generated_arr] st of
        (Inl e, w) \<Rightarrow> (Inl e, w)
      | (Inr l, w) \<Rightarrow> batch_loop ext self generated_arr loc scale batches (l, w))"

text \<open>
  Lines 380 to 417 of \<open>compose\<close>: the draw, the velocity parameters, and the loops
  that fill \<open>generated_list\<close>.
\<close>

definition generate_notes ::
  "externals \<Rightarrow> real option \<Rightarrow> real option \<Rightarrow> composer \<Rightarrow> world
     \<Rightarrow> (error + note_tuple list) \<times> world" where
  "generate_notes ext velocity_mean velocity_std self w =
     (let generated_arr = draw ext w (self_generative_model self);
          w1 = w\<lparr>calls := Draw (self_generative_model self) # calls w\<rparr>;
          loc = (case velocity_mean of
                   None \<Rightarrow> velocity_mean_of ext (self_midi_df_list self)
                 | Some m \<Rightarrow> m);
          scale = (case velocity_std of
                     None \<Rightarrow> velocity_std_of ext (self_midi_df_list self)
                   | Some sd \<Rightarrow> sd)
      in case batch_loop ext self generated_arr loc scale [0..<shape0 generated_arr]
                ((0, self_time_fraction self, []), w1) of
           (Inl e, w2) \<Rightarrow> (Inl e, w2)
         | (Inr (start, end', generated_list), w2) \<Rightarrow> (Inr generated_list, w2))"

subsection \<open>\<open>compose\<close>: from \<open>generated_list\<close> to the saved DataFrame\<close>

definition DataFrame :: "note_tuple list \<Rightarrow> note_row list" where
  "DataFrame generated_list =
     map (\<lambda>(program, start, end', pitch, velocity).
            \<lparr>col_program = program, col_start = start, col_end = end', col_pitch = pitch,
             col_velocity = velocity\<rparr>)
       generated_list"

text \<open>\<open>drop_duplicates\<close> keeps the first row of each key.\<close>

fun drop_duplicates_seen :: "('a \<Rightarrow> 'k) \<Rightarrow> 'k list \<Rightarrow> 'a list \<Rightarrow> 'a list" where
  "drop_duplicates_seen key seen [] = []"
| "drop_duplicates_seen key seen (x # xs) =
     (if key x \<in> set seen then drop_duplicates_seen key seen xs
      else x # drop_duplicates_seen key (key x # seen) xs)"

definition drop_duplicates :: "('a \<Rightarrow> 'k) \<Rightarrow> 'a list \<Rightarrow> 'a list" where
  "drop_duplicates key xs = drop_duplicates_seen key [] xs"

text \<open>\<open>sort_values(by=["start", "end"])\<close>, on rows with or without the added columns.\<close>

definition sort_values :: "'a note_row_scheme list \<Rightarrow> 'a note_row_scheme list" where
  "sort_values df = sort_key (\<lambda>r. (col_start r, col_end r)) df"

text \<open>\<open>Series.shift(-1)\<close>: every value moves up one row and the last row gets \<open>NaN\<close>.\<close>

fun shift_up :: "'a list \<Rightarrow> 'a option list" where
  "shift_up [] = []"
| "shift_up (x # xs) = map Some xs @ [None]"

definition add_next_columns :: "note_row list \<Rightarrow> linked_row list" where
  "add_next_columns df =
     map (\<lambda>(r, next_start, next_end).
            \<lparr>col_program = col_program r, col_start = col_start r, col_end = col_end r,
             col_pitch = col_pitch r, col_velocity = col_velocity r,
             col_next_start = next_start, col_next_end = next_end\<rparr>)
       (zip df (zip (shift_up (map col_start df)) (shift_up (map col_end df))))"

text \<open>
  \<open>df.loc[df.end == df.next_start, "end"] = df.loc[df.end == df.next_start, "next_end"]\<close>:
  the test is false where \<open>next_start\<close> is \<open>NaN\<close>, and it reads the columns as they
  were before the assignment. (\<open>next_end\<close> is \<open>NaN\<close> only where \<open>next_start\<close> is.)
\<close>

definition assign_next_end :: "linked_row list \<Rightarrow> linked_row list" where
  "assign_next_end df =
     map (\<lambda>r. if Some (col_end r) = col_next_start r
               then (case col_next_end r of Some e \<Rightarrow> r\<lparr>col_end := e\<rparr> | None \<Rightarrow> r)
               else r)
       df"

text \<open>The body of \<open>for pitch in pitch_arr\<close>, in its three steps.\<close>

definition sorted_group :: "note_row list \<Rightarrow> int \<Rightarrow> note_row list" where
  "sorted_group generated_midi_df pitch =
     sort_values (filter (\<lambda>r. col_pitch r = pitch) generated_midi_df)"

definition linked_group :: "note_row list \<Rightarrow> int \<Rightarrow> linked_row list" where
  "linked_group generated_midi_df pitch =
     assign_next_end (add_next_columns (sorted_group generated_midi_df pitch))"

definition pitch_group :: "note_row list \<Rightarrow> int \<Rightarrow> linked_row list" where
  "pitch_group generated_midi_df pitch =
     drop_duplicates col_end (linked_group generated_midi_df pitch)"

text \<open>\<open>pd.concat\<close> raises \<open>ValueError\<close> on an empty list of frames.\<close>

definition pd_concat :: "'a list list \<Rightarrow> error + 'a list" where
  "pd_concat df_list =
     (if df_list = [] then Inl (ValueError ''No objects to concatenate'')
      else Inr (concat df_list))"

text \<open>Lines 419 to 442 of \<open>compose\<close>.\<close>

definition pitch_arr_of :: "note_row list \<Rightarrow> int list" where
  "pitch_arr_of generated_midi_df = drop_duplicates id (map col_pitch generated_midi_df)"

definition merge_notes :: "note_tuple list \<Rightarrow> error + linked_row list" where
  "merge_notes generated_list =
     (let generated_midi_df = DataFrame generated_list;
          pitch_arr = pitch_arr_of generated_midi_df;
          df_list = map (pitch_group generated_midi_df) pitch_arr
      in case pd_concat df_list of
           Inl e \<Rightarrow> Inl e
         | Inr df \<Rightarrow> Inr (sort_values df))"


subsection \<open>\<open>__init__\<close>\<close>

text \<open>The parameters of \<open>__init__\<close>; \<open>None\<close> is the default of the last six.\<close>

record init_args =
  midi_path_list :: "string list"
  batch_size :: int
  seq_len :: int
  time_fraction :: real
  min_pitch :: int
  max_pitch :: int
  learning_rate :: real
  hidden_dim :: "int option"
  true_sampler :: "true_sampler option"
  noise_sampler :: "noise_sampler option"
  generative_model :: "ref option"
  discriminative_model :: "discriminative_model option"
  gans_value_function :: "gans_value_function option"

definition default_args :: "string list \<Rightarrow> init_args" where
  "default_args paths =
     \<lparr>midi_path_list = paths, batch_size = 10, seq_len = 4, time_fraction = 1,
      min_pitch = 24, max_pitch = 108, learning_rate = 1 / 100000, hidden_dim = None,
      true_sampler = None, noise_sampler = None, generative_model = None,
      discriminative_model = None, gans_value_function = None\<rparr>"

text \<open>
  \<open>list(set(program_list))\<close>, where each element of \<open>program_list\<close> is the column
  \<open>midi_df.program\<close>, a pandas Series (here the list of its values). Building a set
  hashes every element, and the \<open>__hash__\<close> of a Series raises \<open>TypeError\<close>; so the
  call returns, with an empty list, only when there is nothing to hash.
\<close>

definition set_of_series :: "int list list \<Rightarrow> error + int list list" where
  "set_of_series program_list =
     (case program_list of
        [] \<Rightarrow> Inr []
      | series # rest \<Rightarrow>
          Inl (TypeError ''Series objects are mutable, thus they cannot be hashed''))"

text \<open>Lines 167 to 180: the noise sampler and \<open>channel\<close>.\<close>

definition init_noise_sampler ::
  "externals \<Rightarrow> init_args \<Rightarrow> midi_df list \<Rightarrow> error + noise_sampler \<times> int" where
  "init_noise_sampler ext a midi_df_list =
     (case noise_sampler a of
        None \<Rightarrow>
          (let ns = BarNoiseSampler midi_df_list (batch_size a) (seq_len a) (time_fraction a)
                      (min_pitch a) (max_pitch a)
           in Inr (ns, channel_of ext ns))
      | Some ns \<Rightarrow>
          (let program_list = map (map col_program) midi_df_list
           in case set_of_series program_list of
                Inl e \<Rightarrow> Inl e
              | Inr program_list' \<Rightarrow> Inr (ns, int (length program_list'))))"

text \<open>
  Lines 183 to 259: the generator built when none is given. The list
  \<open>deconvolution_layer_list\<close> is built and not used.
\<close>

definition default_generative_model :: "init_args \<Rightarrow> int \<Rightarrow> real \<Rightarrow> generator" where
  "default_generative_model a channel scale =
     (let conv1 = ConvolutionLayer
                    (CNNGraph (TanhFunction None) (batch_size a) channel 3 scale 1 1);
          conv2 = ConvolutionLayer
                    (CNNGraph (TanhFunction None) (batch_size a) (batch_size a) 3 scale 1 1);
          deconvolution_layer_list =
            [DeconvolutionLayer
               (CNNGraph (TanhFunction None) (batch_size a) channel 3 scale 1 1)];
          opt_params = Adam 0;
          convolutional_auto_encoder =
            CAE [conv1, conv2] 100 (batch_size a) (learning_rate a) (1 / 10) 25
              MeanSquaredError opt_params VerificateFunctionApproximation (3 / 10)
              (1 / 10 ^ 15)
      in Generator (batch_size a) (learning_rate a) convolutional_auto_encoder channel False)"

text \<open>
  Lines 263 to 315: the discriminator built when none is given, with the default of
  \<open>hidden_dim\<close> (lines 295 and 296).
\<close>

definition default_discriminative_model ::
  "init_args \<Rightarrow> int \<Rightarrow> int \<Rightarrow> discriminative_model" where
  "default_discriminative_model a channel dim' =
     (let activation_function = TanhFunction (Some BatchNorm);
          conv = ConvolutionLayer
                   (CNNGraph activation_function (batch_size a) channel 3 (1 / 1000) 1 1);
          layerable_cnn_list = [conv];
          opt_params = Adam 0;
          hidden_dim' = (case hidden_dim a of
                           None \<Rightarrow> channel * seq_len a * dim'
                         | Some h \<Rightarrow> h);
          cnn_output_activating_function = LogisticFunction;
          cnn_output_graph =
            CNNOutputGraph hidden_dim' 1 cnn_output_activating_function (1 / 100)
      in Discriminator (batch_size a) layerable_cnn_list cnn_output_graph opt_params
           CrossEntropy (learning_rate a) False)"

text \<open>
  A new generative model gets the next free reference; its attribute \<open>noise_sampler\<close>
  is not yet assigned. \<open>generative_model.noise_sampler = noise_sampler\<close> writes the
  attribute of the object the reference denotes.
\<close>

definition alloc_generative_model :: "generator \<Rightarrow> world \<Rightarrow> ref \<times> world" where
  "alloc_generative_model g w =
     (next_ref w,
      w\<lparr>gen_heap := (gen_heap w)(next_ref w := \<lparr>gen_body = g, gen_noise_sampler = None\<rparr>),
        next_ref := Suc (next_ref w)\<rparr>)"

definition set_noise_sampler :: "ref \<Rightarrow> noise_sampler \<Rightarrow> world \<Rightarrow> world" where
  "set_noise_sampler r ns w =
     w\<lparr>gen_heap := (gen_heap w)(r := (gen_heap w r)\<lparr>gen_noise_sampler := Some ns\<rparr>)\<rparr>"

definition init :: "externals \<Rightarrow> init_args \<Rightarrow> world \<Rightarrow> (error + composer) \<times> world" where
  "init ext a w =
     (let midi_controller = MidiController;
          midi_df_list = map (extract_midi ext) (midi_path_list a);
          dim' = max_pitch a - min_pitch a;
          scale = 1 / 100;
          true_sampler' =
            (case true_sampler a of
               None \<Rightarrow> BarTrueSampler midi_df_list (batch_size a) (seq_len a)
                         (time_fraction a) (min_pitch a) (max_pitch a) False
             | Some ts \<Rightarrow> ts)
      in case init_noise_sampler ext a midi_df_list of
           Inl e \<Rightarrow> (Inl e, w)
         | Inr (noise_sampler', channel) \<Rightarrow>
             (let (generative_model', w1) =
                    (case generative_model a of
                       None \<Rightarrow> alloc_generative_model
                                 (default_generative_model a channel scale) w
                     | Some g \<Rightarrow> (g, w));
                  w2 = set_noise_sampler generative_model' noise_sampler' w1;
                  discriminative_model' =
                    (case discriminative_model a of
                       None \<Rightarrow> default_discriminative_model a channel dim'
                     | Some d \<Rightarrow> d);
                  gans_value_function' =
                    (case gans_value_function a of None \<Rightarrow> MiniMax | Some v \<Rightarrow> v);
                  GAN = AdversarialAutoEncoders gans_value_function'
              in (Inr \<lparr>self_midi_controller = midi_controller,
                       self_midi_df_list = midi_df_list,
                       self_noise_sampler = noise_sampler',
                       self_true_sampler = true_sampler',
                       self_generative_model = generative_model',
                       self_discriminative_model = discriminative_model',
                       self_GAN = GAN,
                       self_time_fraction = time_fraction a,
                       self_min_pitch = min_pitch a,
                       self_max_pitch = max_pitch a\<rparr>, w2)))"

section \<open>The script \<open>test/nn_3_or_multi_layer_builder.py\<close>\<close>

text \<open>
  The script is a sequence of module-level statements under
  \<open>if __name__ == "__main__":\<close>. What decides whether it runs is which global names are
  bound when a statement reads them, so a statement is modelled by the names it binds
  and the names it reads, in the order Python evaluates them. Reading a name that is
  neither bound nor a builtin raises \<open>NameError\<close>. Every import and every call into a
  library is taken to succeed. The variable of a list comprehension is bound and read
  inside the comprehension only, and is left out.
\<close>

datatype stmt =
    FromImport string string
  | Import string string
  | Assign "string list" "string list"
  | Expr "string list"

definition builtins :: "string list" where
  "builtins = [''len'', ''print'']"

fun first_unbound :: "string list \<Rightarrow> string list \<Rightarrow> string option" where
  "first_unbound bound [] = None"
| "first_unbound bound (n # ns) =
     (if n \<in> set bound \<or> n \<in> set builtins then first_unbound bound ns else Some n)"

fun exec_stmt :: "string list \<Rightarrow> stmt \<Rightarrow> error + string list" where
  "exec_stmt bound (FromImport m n) = Inr (n # bound)"
| "exec_stmt bound (Import m n) = Inr (n # bound)"
| "exec_stmt bound (Assign targets reads) =
     (case first_unbound bound reads of
        Some n \<Rightarrow> Inl (NameError n)
      | None \<Rightarrow> Inr (targets @ bound))"
| "exec_stmt bound (Expr reads) =
     (case first_unbound bound reads of
        Some n \<Rightarrow> Inl (NameError n)
      | None \<Rightarrow> Inr bound)"

fun exec_stmts :: "string list \<Rightarrow> stmt list \<Rightarrow> error + string list" where
  "exec_stmts bound [] = Inr bound"
| "exec_stmts bound (st # sts) =
     (case exec_stmt bound st of
        Inl e \<Rightarrow> Inl e
      | Inr bound' \<Rightarrow> exec_stmts bound' sts)"

text \<open>Lines 2 to 10: the imports.\<close>

definition script_imports :: "stmt list" where
  "script_imports =
     [FromImport ''deeplearning.nn.builders.nn_3_layer_builder'' ''NN3LayerBuilder'',
      FromImport ''deeplearning.nn.builders.nn_multi_layer_builder'' ''NNMultiLayerBuilder'',
      FromImport ''deeplearning.activation.sigmoid_function'' ''SigmoidFunction'',
      Import ''numpy'' ''np'',
      Import ''random'' ''random'',
      Import ''pandas'' ''pd'',
      FromImport ''pprint'' ''pprint'',
      FromImport ''sklearn.datasets'' ''make_classification'',
      FromImport ''sklearn.cross_validation'' ''train_test_split'']"

text \<open>Lines 12 to 34: the data.\<close>

definition script_data :: "stmt list" where
  "script_data =
     [Assign [''data_tuple''] [''make_classification''],
      Assign [''data_tuple_x'', ''data_tuple_y''] [''data_tuple''],
      Assign [''traning_x'', ''test_x'', ''traning_y'', ''test_y'']
        [''train_test_split'', ''data_tuple_x'', ''data_tuple_y''],
      Assign [''traning_data_matrix''] [''traning_x''],
      Assign [''class_data_list''] [''traning_y''],
      Assign [''test_data_matrix''] [''test_x''],
      Assign [''test_class_data_list''] [''test_y''],
      Assign [''class_data_matrix''] [''class_data_list''],
      Assign [''test_class_data_matrix''] [''test_class_data_list''],
      Assign [''evaluate_data_list''] []]"

text \<open>
  Lines 36 to 54, 56 to 74 and 76 to 92: a network is built, trained, evaluated, and its
  result appended; \<open>builder\<close> is the builder class the constructor call names.
\<close>

definition script_network :: "string \<Rightarrow> stmt list" where
  "script_network builder =
     [Assign [''nn'']
        [''NeuralNetwork'', builder, ''len'', ''traning_data_matrix'', ''SigmoidFunction''],
      Expr [''nn'', ''traning_data_matrix'', ''class_data_matrix''],
      Assign [''evaluate_result_dict'']
        [''nn'', ''test_data_matrix'', ''test_class_data_matrix''],
      Expr [''evaluate_data_list'', ''evaluate_result_dict'']]"

text \<open>Lines 94 to 107: the table.\<close>

definition script_table :: "stmt list" where
  "script_table =
     [Assign [''evaluate_data''] [''pd'', ''evaluate_data_list''],
      Assign [''evaluate_data''] [''evaluate_data''],
      Assign [''data_columns''] [],
      Expr [''print'', ''evaluate_data'', ''data_columns'']]"

definition script :: "stmt list" where
  "script =
     script_imports @ script_data @ script_network ''NN3LayerBuilder''
     @ script_network ''NN3LayerBuilder'' @ script_network ''NNMultiLayerBuilder''
     @ script_table"

text \<open>Running the file as \<open>__main__\<close>: only \<open>__name__\<close> is bound at the start.\<close>

definition run_as_main :: "error + string list" where
  "run_as_main = exec_stmts [''__name__''] script"

section \<open>Notions the properties are stated with\<close>

text \<open>A tuple of \<open>generated_list\<close> without its velocity, and its parts.\<close>

definition drop_velocity :: "note_tuple \<Rightarrow> int \<times> real \<times> real \<times> int" where
  "drop_velocity n =
     (case n of (program, start, end', pitch, velocity) \<Rightarrow> (program, start, end', pitch))"





text \<open>The references \<open>draw\<close> was called on, most recent first.\<close>

definition draw_calls :: "world \<Rightarrow> ref list" where
  "draw_calls w = concat (map (\<lambda>c. case c of Draw r \<Rightarrow> [r] | _ \<Rightarrow> []) (calls w))"



text \<open>
  The rows of \<open>key_df\<close> in the order the loop over \<open>seq\<close> visits them, the positions
  they stand for, and the positions of all blocks in the order of the loops.
\<close>

definition block_rows :: "externals \<Rightarrow> ndarray \<Rightarrow> nat \<Rightarrow> nat \<Rightarrow> key_row list" where
  "block_rows ext arr b p =
     concat (map (\<lambda>seq. filter (\<lambda>r. key_seq r = seq) (key_df ext arr b p)) [0..<shape2 arr])"







subsection \<open>Concrete inputs\<close>

text \<open>
  A drawn array of shape \<open>(2, 2, 2, 2)\<close> that is 1 where the pitch index equals the
  seq index, and a composer around it with two programs and \<open>time_fraction = 0.5\<close>.
\<close>

definition example_arr :: ndarray where
  "example_arr =
     \<lparr>shape0 = 2, shape1 = 2, shape2 = 2, shape3 = 2,
      item = (\<lambda>b p s q. if q = s then 1 else 0)\<rparr>"

definition example_ext :: externals where
  "example_ext =
     \<lparr>extract_midi = (\<lambda>path. []), channel_of = (\<lambda>ns. 2),
      program_list_of = (\<lambda>ns. [0, 40]),
      train = (\<lambda>w g ts r d iter_n k_step. (r, d)),
      extract_logs_tuple = (\<lambda>w g. ([], [], [])),
      draw = (\<lambda>w r. example_arr),
      velocity_mean_of = (\<lambda>dfs. 64), velocity_std_of = (\<lambda>dfs. 0),
      normal = (\<lambda>w loc scale. loc),
      tie_break = (\<lambda>rows r. 0)\<rparr>"


definition example_world :: world where
  "example_world =
     \<lparr>calls = [],
      gen_heap = (\<lambda>r. \<lparr>gen_body = GeneratorObj r, gen_noise_sampler = None\<rparr>),
      next_ref = 1\<rparr>"






section \<open>Lemmas\<close>

subsection \<open>The loops of \<open>compose\<close>\<close>

lemma drop_velocity_tuple [simp]:
  "drop_velocity (program, start, end', pitch, velocity) = (program, start, end', pitch)"
  by (simp add: drop_velocity_def)

lemma draw_calls_Normal [simp]:
  "draw_calls (w\<lparr>calls := Normal loc scale # calls w\<rparr>) = draw_calls w"
  by (simp add: draw_calls_def)

lemma py_int_of_int: "py_int (real_of_int z) = z"
  by (simp add: py_int_def)

lemma py_int_pitch: "py_int (real q + real_of_int m) = int q + m"
proof -
  have "real q + real_of_int m = real_of_int (int q + m)" by simp
  then show ?thesis using py_int_of_int by metis
qed

lemma append_notes_tuples:
  "map drop_velocity (fst (append_notes ext self loc scale program st en df (gl, w))) =
   map drop_velocity gl @ map (\<lambda>r. (program, st, en, int (key_pitch r) + self_min_pitch self)) df"
  by (induction df arbitrary: gl w) (simp_all add: Let_def py_int_pitch)

lemma append_notes_draws:
  "draw_calls (snd (append_notes ext self loc scale program st en df (gl, w))) = draw_calls w"
  by (induction df arbitrary: gl w) (simp_all add: Let_def)

lemma seq_loop_Suc:
  "seq_loop ext self loc scale program st en kdf (Suc n) acc =
   append_notes ext self loc scale program st en (filter (\<lambda>r. key_seq r = n) kdf)
     (seq_loop ext self loc scale program st en kdf n acc)"
  by (simp add: seq_loop_def)

lemma seq_loop_tuples:
  "map drop_velocity (fst (seq_loop ext self loc scale program st en kdf n acc)) =
   map drop_velocity (fst acc) @
   map (\<lambda>r. (program, st, en, int (key_pitch r) + self_min_pitch self))
     (concat (map (\<lambda>seq. filter (\<lambda>r. key_seq r = seq) kdf) [0..<n]))"
proof (induction n)
  case 0
  then show ?case by (simp add: seq_loop_def)
next
  case (Suc n)
  obtain gl w where a: "seq_loop ext self loc scale program st en kdf n acc = (gl, w)"
    by (cases "seq_loop ext self loc scale program st en kdf n acc")
  show ?case using Suc by (simp add: seq_loop_Suc a append_notes_tuples)
qed

lemma seq_loop_draws:
  "draw_calls (snd (seq_loop ext self loc scale program st en kdf n acc)) = draw_calls (snd acc)"
proof (induction n)
  case 0
  then show ?case by (simp add: seq_loop_def)
next
  case (Suc n)
  obtain gl w where a: "seq_loop ext self loc scale program st en kdf n acc = (gl, w)"
    by (cases "seq_loop ext self loc scale program st en kdf n acc")
  show ?case using Suc by (simp add: seq_loop_Suc a append_notes_draws)
qed
















lemma program_key_body_Inr:
  assumes "p < length (program_list_of ext (self_noise_sampler self))"
  shows "\<exists>gl' w'.
    program_key_body ext self arr loc scale b p ((st, en, gl), w) =
      (Inr (st + self_time_fraction self, en + self_time_fraction self, gl'), w')
    \<and> map drop_velocity gl' = map drop_velocity gl @
        map (\<lambda>r. (program_list_of ext (self_noise_sampler self) ! p, st, en,
                  int (key_pitch r) + self_min_pitch self)) (block_rows ext arr b p)
    \<and> draw_calls w' = draw_calls w"
proof -
  let ?pl = "program_list_of ext (self_noise_sampler self)"
  obtain gl' w' where a:
    "seq_loop ext self loc scale (?pl ! p) st en (key_df ext arr b p) (shape2 arr) (gl, w) = (gl', w')"
    by (cases "seq_loop ext self loc scale (?pl ! p) st en (key_df ext arr b p) (shape2 arr) (gl, w)")
  have t: "map drop_velocity gl' = map drop_velocity gl @
        map (\<lambda>r. (?pl ! p, st, en, int (key_pitch r) + self_min_pitch self))
          (block_rows ext arr b p)"
    using seq_loop_tuples [of ext self loc scale "?pl ! p" st en "key_df ext arr b p" "shape2 arr" "(gl, w)"]
    by (simp add: a block_rows_def)
  have d: "draw_calls w' = draw_calls w"
    using seq_loop_draws [of ext self loc scale "?pl ! p" st en "key_df ext arr b p" "shape2 arr" "(gl, w)"]
    by (simp add: a)
  have "program_key_body ext self arr loc scale b p ((st, en, gl), w) =
      (Inr (st + self_time_fraction self, en + self_time_fraction self, gl'), w')"
    using assms by (simp add: program_key_body_def Let_def a)
  with t d show ?thesis by blast
qed








lemma program_key_loop_returns:
  assumes "\<forall>k \<in> set keys. k < length (program_list_of ext (self_noise_sampler self))"
  shows "\<exists>l' w'. program_key_loop ext self arr loc scale b keys (l, w) = (Inr l', w')"
  using assms
proof (induction keys arbitrary: l w)
  case Nil
  show ?case by (cases l) simp
next
  case (Cons k keys)
  obtain st en gl where l: "l = (st, en, gl)" by (cases l)
  have k: "k < length (program_list_of ext (self_noise_sampler self))"
    using Cons.prems by simp
  from program_key_body_Inr [OF k, where arr = arr and loc = loc and scale = scale
      and b = b and st = st and en = en and gl = gl and w = w]
  obtain gl1 w1 where
    body: "program_key_body ext self arr loc scale b k (l, w) =
             (Inr (st + self_time_fraction self, en + self_time_fraction self, gl1), w1)"
    unfolding l by blast
  from Cons.IH [of "(st + self_time_fraction self, en + self_time_fraction self, gl1)" w1]
    Cons.prems
  show ?case by (simp add: body)
qed

lemma batch_loop_returns:
  assumes "shape1 arr \<le> length (program_list_of ext (self_noise_sampler self))"
  shows "\<exists>l' w'. batch_loop ext self arr loc scale batches (l, w) = (Inr l', w')"
proof (induction batches arbitrary: l w)
  case Nil
  show ?case by (cases l) simp
next
  case (Cons b batches)
  have "\<forall>k \<in> set [0..<shape1 arr]. k < length (program_list_of ext (self_noise_sampler self))"
    using assms by simp
  from program_key_loop_returns [OF this, of arr loc scale b l w]
  obtain l1 w1 where
    "program_key_loop ext self arr loc scale b [0..<shape1 arr] (l, w) = (Inr l1, w1)"
    by blast
  with Cons.IH [of l1 w1] show ?case by simp
qed

lemma generate_notes_returns:
  assumes "shape1 (draw ext w (self_generative_model self))
             \<le> length (program_list_of ext (self_noise_sampler self))"
  shows "\<exists>generated_list.
           fst (generate_notes ext velocity_mean velocity_std self w) = Inr generated_list"
proof -
  let ?arr = "draw ext w (self_generative_model self)"
  let ?w1 = "w\<lparr>calls := Draw (self_generative_model self) # calls w\<rparr>"
  let ?loc = "case velocity_mean of None \<Rightarrow> velocity_mean_of ext (self_midi_df_list self) | Some m \<Rightarrow> m"
  let ?scale = "case velocity_std of None \<Rightarrow> velocity_std_of ext (self_midi_df_list self) | Some sd \<Rightarrow> sd"
  from batch_loop_returns [OF assms, of ?loc ?scale "[0..<shape0 ?arr]"
      "(0, self_time_fraction self, [])" ?w1]
  obtain l' w' where
    "batch_loop ext self ?arr ?loc ?scale [0..<shape0 ?arr]
       ((0, self_time_fraction self, []), ?w1) = (Inr l', w')"
    by blast
  then show ?thesis
    by (cases l') (simp add: generate_notes_def Let_def)
qed

lemma length_shift_up [simp]: "length (shift_up xs) = length xs"
  by (cases xs) simp_all


lemma length_add_next_columns [simp]: "length (add_next_columns df) = length df"
  by (simp add: add_next_columns_def)


lemma length_assign_next_end [simp]: "length (assign_next_end df) = length df"
  by (simp add: assign_next_end_def)






lemma drop_duplicates_seen_keys:
  "set (map key (drop_duplicates_seen key seen xs)) = set (map key xs) - set seen"
  by (induction xs arbitrary: seen) auto




lemma drop_duplicates_keys: "set (map key (drop_duplicates key xs)) = set (map key xs)"
  by (simp add: drop_duplicates_def drop_duplicates_seen_keys del: set_map)



lemma pitch_arr_set: "set (pitch_arr_of df) = col_pitch ` set df"
  using drop_duplicates_keys [of id "map col_pitch df"] by (simp add: pitch_arr_of_def)


lemma merge_notes_empty: "merge_notes [] = Inl (ValueError ''No objects to concatenate'')"
  by (simp add: merge_notes_def pd_concat_def DataFrame_def pitch_arr_of_def drop_duplicates_def)

lemma merge_notes_returns:
  assumes "generated_list \<noteq> []"
  shows "\<exists>note_df. merge_notes generated_list = Inr note_df"
proof -
  have "set (pitch_arr_of (DataFrame generated_list)) \<noteq> {}"
    using assms by (simp add: pitch_arr_set DataFrame_def)
  then have "pitch_arr_of (DataFrame generated_list) \<noteq> []" by auto
  then show ?thesis by (simp add: merge_notes_def Let_def pd_concat_def)
qed

lemma draw_calls_Save [simp]:
  "draw_calls (w\<lparr>calls := Save file_path note_df # calls w\<rparr>) = draw_calls w"
  by (simp add: draw_calls_def)







subsection \<open>The order of the blocks\<close>




subsection \<open>The save\<close>


subsection \<open>\<open>__init__\<close>\<close>

lemma init_Inr:
  assumes "fst (init ext a w) = Inr c"
  obtains ns channel where
    "init_noise_sampler ext a (map (extract_midi ext) (midi_path_list a)) = Inr (ns, channel)"
    and "self_noise_sampler c = ns"
    and "self_true_sampler c =
           (case true_sampler a of
              None \<Rightarrow> BarTrueSampler (map (extract_midi ext) (midi_path_list a)) (batch_size a)
                        (seq_len a) (time_fraction a) (min_pitch a) (max_pitch a) False
            | Some ts \<Rightarrow> ts)"
    and "self_midi_df_list c = map (extract_midi ext) (midi_path_list a)"
    and "self_discriminative_model c =
           (case discriminative_model a of
              None \<Rightarrow> default_discriminative_model a channel (max_pitch a - min_pitch a)
            | Some d \<Rightarrow> d)"
    and "self_generative_model c =
           (case generative_model a of None \<Rightarrow> next_ref w | Some g \<Rightarrow> g)"
    and "snd (init ext a w) =
           set_noise_sampler (self_generative_model c) ns
             (case generative_model a of
                None \<Rightarrow> snd (alloc_generative_model
                               (default_generative_model a channel (1 / 100)) w)
              | Some g \<Rightarrow> w)"
proof (cases "init_noise_sampler ext a (map (extract_midi ext) (midi_path_list a))")
  case (Inl e)
  with assms show ?thesis by (simp add: init_def Let_def)
next
  case (Inr r)
  obtain ns channel where r: "r = (ns, channel)" by (cases r)
  show ?thesis
  proof (rule that [of ns channel])
    show "init_noise_sampler ext a (map (extract_midi ext) (midi_path_list a)) = Inr (ns, channel)"
      using Inr r by simp
  qed (use assms Inr r in \<open>auto simp: init_def Let_def alloc_generative_model_def
         split: option.splits\<close>)
qed

lemma init_returns_iff:
  "(\<exists>c. fst (init ext a w) = Inr c) \<longleftrightarrow> (noise_sampler a = None \<or> midi_path_list a = [])"
  by (auto simp: init_def init_noise_sampler_def set_of_series_def Let_def
      split: option.splits list.splits prod.splits)

lemma init_raises_unchanged:
  "fst (init ext a w) = Inl e \<Longrightarrow> snd (init ext a w) = w"
  by (auto simp: init_def Let_def split: sum.splits prod.splits)

lemma init_default_channel:
  assumes "fst (init ext a w) = Inr c" and "noise_sampler a = None"
  shows "self_noise_sampler c =
           BarNoiseSampler (self_midi_df_list c) (batch_size a) (seq_len a) (time_fraction a)
             (min_pitch a) (max_pitch a)
       \<and> (discriminative_model a = None \<longrightarrow>
            self_discriminative_model c =
              default_discriminative_model a (channel_of ext (self_noise_sampler c))
                (max_pitch a - min_pitch a))"
  using assms
  by (elim init_Inr) (auto simp: init_noise_sampler_def Let_def)

lemma default_hidden_dim:
  "hidden_dim a = None \<Longrightarrow>
   default_discriminative_model a channel d =
     Discriminator (batch_size a)
       [ConvolutionLayer
          (CNNGraph (TanhFunction (Some BatchNorm)) (batch_size a) channel 3 (1 / 1000) 1 1)]
       (CNNOutputGraph (channel * seq_len a * d) 1 LogisticFunction (1 / 100))
       (Adam 0) CrossEntropy (learning_rate a) False"
  by (simp add: default_discriminative_model_def)

lemma init_supplied_noise_sampler_no_midi:
  "fst (init ext (a\<lparr>midi_path_list := [], noise_sampler := Some ns,
          discriminative_model := None\<rparr>) w) = Inr c \<Longrightarrow>
   self_discriminative_model c =
     default_discriminative_model
       (a\<lparr>midi_path_list := [], noise_sampler := Some ns, discriminative_model := None\<rparr>)
       0 (max_pitch a - min_pitch a)"
  by (auto simp: init_def init_noise_sampler_def set_of_series_def Let_def
      split: option.splits prod.splits)

section \<open>Properties\<close>






text \<open>
  C3. \<open>learn\<close> makes one call, \<open>GAN.train\<close> with the stored true sampler, generative
  model and discriminative model and with \<open>iter_n\<close> and \<open>k_step\<close>; it stores the
  returned pair as the generative and the discriminative model, and every other field of
  the composer is as before.
\<close>

theorem learn_replaces_only_the_models:
  "fst (learn ext iter_n k_step self w) =
     self\<lparr>self_generative_model :=
            fst (train ext w (self_GAN self) (self_true_sampler self)
                   (self_generative_model self) (self_discriminative_model self) iter_n k_step),
          self_discriminative_model :=
            snd (train ext w (self_GAN self) (self_true_sampler self)
                   (self_generative_model self) (self_discriminative_model self) iter_n k_step)\<rparr>
   \<and> calls (snd (learn ext iter_n k_step self w)) =
       Train (self_GAN self) (self_true_sampler self) (self_generative_model self)
         (self_discriminative_model self) iter_n k_step # calls w
   \<and> gen_heap (snd (learn ext iter_n k_step self w)) = gen_heap w
   \<and> self_true_sampler (fst (learn ext iter_n k_step self w)) = self_true_sampler self
   \<and> self_noise_sampler (fst (learn ext iter_n k_step self w)) = self_noise_sampler self
   \<and> self_GAN (fst (learn ext iter_n k_step self w)) = self_GAN self
   \<and> self_time_fraction (fst (learn ext iter_n k_step self w)) = self_time_fraction self
   \<and> self_min_pitch (fst (learn ext iter_n k_step self w)) = self_min_pitch self
   \<and> self_max_pitch (fst (learn ext iter_n k_step self w)) = self_max_pitch self
   \<and> self_midi_df_list (fst (learn ext iter_n k_step self w)) = self_midi_df_list self
   \<and> self_midi_controller (fst (learn ext iter_n k_step self w)) = self_midi_controller self"
  by (simp add: learn_def Let_def case_prod_unfold)

text \<open>
  C4. Where the caller supplies a noise sampler and at least one MIDI path, \<open>channel\<close>
  is not the number of distinct programs: line 178 collects the \<open>program\<close> columns
  themselves, not their values, line 179 raises \<open>TypeError\<close> on the first of them, and
  \<open>__init__\<close> builds no composer.
\<close>

theorem init_supplied_noise_sampler_raises:
  "fst (init ext (a\<lparr>midi_path_list := path # paths, noise_sampler := Some ns\<rparr>) w) =
     Inl (TypeError ''Series objects are mutable, thus they cannot be hashed'')"
  by (simp add: init_def init_noise_sampler_def set_of_series_def Let_def)

text \<open>
  C5. When \<open>__init__\<close> returns, the stored true sampler is the \<open>BarTrueSampler\<close> built
  from the extracted DataFrames, \<open>batch_size\<close>, \<open>seq_len\<close>, \<open>time_fraction\<close>,
  \<open>min_pitch\<close>, \<open>max_pitch\<close> and \<open>conditional_flag=False\<close> if none was given, and the
  given one otherwise; the property \<open>true_sampler\<close> returns it.
\<close>

theorem init_wires_the_true_sampler:
  assumes "fst (init ext a w) = Inr c"
  shows "self_midi_df_list c = map (extract_midi ext) (midi_path_list a)
       \<and> self_true_sampler c =
           (case true_sampler a of
              None \<Rightarrow> BarTrueSampler (self_midi_df_list c) (batch_size a) (seq_len a)
                        (time_fraction a) (min_pitch a) (max_pitch a) False
            | Some ts \<Rightarrow> ts)
       \<and> fst (get_true_sampler c w') = self_true_sampler c"
  using assms by (elim init_Inr) (simp add: get_true_sampler_def split: option.splits)

theorem init_wires_the_true_sampler_witness:
  "fst (init example_ext (default_args [''a.mid'']) example_world) =
     Inr \<lparr>self_midi_controller = MidiController, self_midi_df_list = [[]],
          self_noise_sampler = BarNoiseSampler [[]] 10 4 1 24 108,
          self_true_sampler = BarTrueSampler [[]] 10 4 1 24 108 False,
          self_generative_model = 1,
          self_discriminative_model =
            default_discriminative_model (default_args [''a.mid'']) 2 84,
          self_GAN = AdversarialAutoEncoders MiniMax, self_time_fraction = 1,
          self_min_pitch = 24, self_max_pitch = 108\<rparr>
   \<and> fst (get_true_sampler
           \<lparr>self_midi_controller = MidiController, self_midi_df_list = [[]],
            self_noise_sampler = BarNoiseSampler [[]] 10 4 1 24 108,
            self_true_sampler = BarTrueSampler [[]] 10 4 1 24 108 False,
            self_generative_model = 1,
            self_discriminative_model =
              default_discriminative_model (default_args [''a.mid'']) 2 84,
            self_GAN = AdversarialAutoEncoders MiniMax, self_time_fraction = 1,
            self_min_pitch = 24, self_max_pitch = 108\<rparr> example_world)
       = BarTrueSampler [[]] 10 4 1 24 108 False"
proof -
  have h: "fst (init example_ext (default_args [''a.mid'']) example_world) =
     Inr \<lparr>self_midi_controller = MidiController, self_midi_df_list = [[]],
          self_noise_sampler = BarNoiseSampler [[]] 10 4 1 24 108,
          self_true_sampler = BarTrueSampler [[]] 10 4 1 24 108 False,
          self_generative_model = 1,
          self_discriminative_model =
            default_discriminative_model (default_args [''a.mid'']) 2 84,
          self_GAN = AdversarialAutoEncoders MiniMax, self_time_fraction = 1,
          self_min_pitch = 24, self_max_pitch = 108\<rparr>"
    by (simp add: init_def init_noise_sampler_def default_args_def example_ext_def
        example_world_def alloc_generative_model_def Let_def)
  show ?thesis
    using init_wires_the_true_sampler [OF h, of example_world] h
    by (simp add: default_args_def)
qed



text \<open>
  C7. The script does not run to completion: line 36 reads \<open>NeuralNetwork\<close>, which
  none of the imports of lines 2 to 10 binds, so the run stops there with \<open>NameError\<close>,
  before any network is built. The names bound at that point are those of the imports
  and the data.
\<close>

theorem script_raises_NameError:
  "run_as_main = Inl (NameError ''NeuralNetwork'')
   \<and> exec_stmts [''__name__''] (script_imports @ script_data) =
       Inr [''evaluate_data_list'', ''test_class_data_matrix'', ''class_data_matrix'',
            ''test_class_data_list'', ''test_data_matrix'', ''class_data_list'',
            ''traning_data_matrix'', ''traning_x'', ''test_x'', ''traning_y'', ''test_y'',
            ''data_tuple_x'', ''data_tuple_y'', ''data_tuple'', ''train_test_split'',
            ''make_classification'', ''pprint'', ''pd'', ''random'', ''np'',
            ''SigmoidFunction'', ''NNMultiLayerBuilder'', ''NN3LayerBuilder'', ''__name__'']"
  by code_simp

text \<open>
  C8. Assigning any value to the property \<open>generative_model\<close> or \<open>true_sampler\<close> (both
  have the setter \<open>set_readonly\<close>) raises \<open>TypeError\<close> and leaves the composer and the
  world as they were; reading them returns the stored generative model and the stored
  true sampler, and changes nothing either.
\<close>

theorem readonly_properties:
  "set_readonly self v w = (Inl (TypeError ''This property must be read-only.''), self, w)
   \<and> get_generative_model self w = (self_generative_model self, self, w)
   \<and> get_true_sampler self w = (self_true_sampler self, self, w)"
  by (simp add: set_readonly_def get_generative_model_def get_true_sampler_def)



text \<open>
  C10. \<open>extract_logs\<close> returns what \<open>GAN.extract_logs_tuple()\<close> returns on the stored GAN
  object, and leaves the composer and the world as they were.
\<close>

theorem extract_logs_returns_the_gan_logs:
  "fst (extract_logs ext self w) = extract_logs_tuple ext w (self_GAN self)
   \<and> fst (snd (extract_logs ext self w)) = self
   \<and> snd (snd (extract_logs ext self w)) = w"
  by (simp add: extract_logs_def)

end
